theory Spec2Isabelle
  imports Main
begin

section \<open>Data model\<close>

text \<open>
  A habit as both servers store it and as the client declares it
  (\<^verbatim>\<open>interface Habit\<close>): \<^verbatim>\<open>id\<close>, \<^verbatim>\<open>name\<close>, \<^verbatim>\<open>streak\<close>, \<^verbatim>\<open>completed_today\<close> and
  \<^verbatim>\<open>last_completed_date\<close>, which is an ISO date string or \<^verbatim>\<open>null\<close> (\<open>None\<close>).
  A streak is created as 0 and only ever changed by \<^verbatim>\<open>+= 1\<close>, \<^verbatim>\<open>= 1\<close> and a
  \<^verbatim>\<open>-= 1\<close> guarded by \<^verbatim>\<open>> 0\<close>, so it is a natural number. The SQLite column
  \<^verbatim>\<open>completed_today\<close> holds 0 and 1 for false and true.
\<close>

type_synonym date = string

record habit =
  habit_id :: int
  name :: string
  streak :: nat
  completed_today :: bool
  last_completed_date :: "date option"

section \<open>The toggle transition of the two servers\<close>

text \<open>
  \<^verbatim>\<open>src/server/index.js\<close>, lines 120 to 140 (the JSON-file server). The two strings
  \<^verbatim>\<open>today\<close> and \<^verbatim>\<open>yesterdayStr\<close> are read from the clock by the handler; they are
  parameters here. The result is the triple
  \<^verbatim>\<open>(newCompletedToday, newStreak, newLastDate)\<close>.
\<close>

definition json_toggle_values :: "habit \<Rightarrow> date \<Rightarrow> date \<Rightarrow> bool \<times> nat \<times> date option" where
  "json_toggle_values habit today yesterdayStr =
     (let newCompletedToday = \<not> completed_today habit;
          newStreak = streak habit;
          newLastDate = last_completed_date habit
      in if newCompletedToday then
           (newCompletedToday,
            (if last_completed_date habit = Some yesterdayStr then newStreak + 1
             else if last_completed_date habit \<noteq> Some today then 1
             else newStreak),
            Some today)
         else if last_completed_date habit = Some today then
           (newCompletedToday, (if newStreak > 0 then newStreak - 1 else newStreak), None)
         else (newCompletedToday, newStreak, newLastDate))"

text \<open>
  Lines 142 to 147: the stored object is the old one with the three fields replaced.
\<close>

definition json_toggle :: "habit \<Rightarrow> date \<Rightarrow> date \<Rightarrow> habit" where
  "json_toggle habit today yesterdayStr =
     (case json_toggle_values habit today yesterdayStr of
        (newCompletedToday, newStreak, newLastDate) \<Rightarrow>
          habit\<lparr>completed_today := newCompletedToday, streak := newStreak,
                last_completed_date := newLastDate\<rparr>)"

text \<open>
  The SQLite server, lines 119 to 151 of its file: the same computation, with the
  streak update nested under the test that the habit was not already done today.
\<close>

definition sqlite_toggle_values :: "habit \<Rightarrow> date \<Rightarrow> date \<Rightarrow> bool \<times> nat \<times> date option" where
  "sqlite_toggle_values habit today yesterdayStr =
     (let newCompletedToday = \<not> completed_today habit;
          newStreak = streak habit;
          newLastDate = last_completed_date habit
      in if newCompletedToday then
           (newCompletedToday,
            (if last_completed_date habit \<noteq> Some today then
               (if last_completed_date habit = Some yesterdayStr then newStreak + 1
                else if last_completed_date habit \<noteq> Some today then 1
                else newStreak)
             else newStreak),
            Some today)
         else if last_completed_date habit = Some today then
           (newCompletedToday, (if newStreak > 0 then newStreak - 1 else newStreak), None)
         else (newCompletedToday, newStreak, newLastDate))"

text \<open>
  Lines 153 to 156: \<^verbatim>\<open>UPDATE habits SET completed_today = ?, streak = ?,
  last_completed_date = ?\<close> writes the three values into the row.
\<close>

definition sqlite_toggle :: "habit \<Rightarrow> date \<Rightarrow> date \<Rightarrow> habit" where
  "sqlite_toggle habit today yesterdayStr =
     (case sqlite_toggle_values habit today yesterdayStr of
        (newCompletedToday, newStreak, newLastDate) \<Rightarrow>
          habit\<lparr>completed_today := newCompletedToday, streak := newStreak,
                last_completed_date := newLastDate\<rparr>)"

text \<open>
  A run of toggle requests on one habit: each request brings its own clock reading
  \<open>(today, yesterdayStr)\<close>.
\<close>

fun json_toggles :: "habit \<Rightarrow> (date \<times> date) list \<Rightarrow> habit" where
  "json_toggles habit [] = habit"
| "json_toggles habit ((today, yesterdayStr) # calls) =
     json_toggles (json_toggle habit today yesterdayStr) calls"

fun sqlite_toggles :: "habit \<Rightarrow> (date \<times> date) list \<Rightarrow> habit" where
  "sqlite_toggles habit [] = habit"
| "sqlite_toggles habit ((today, yesterdayStr) # calls) =
     sqlite_toggles (sqlite_toggle habit today yesterdayStr) calls"

text \<open>
  The habit that both create handlers store: \<^verbatim>\<open>streak: 0, completed_today: false,
  last_completed_date: null\<close>.
\<close>

definition newHabit :: "int \<Rightarrow> string \<Rightarrow> habit" where
  "newHabit hid nm =
     \<lparr>habit_id = hid, name = nm, streak = 0, completed_today = False,
      last_completed_date = None\<rparr>"

section \<open>The request handlers\<close>

text \<open>
  What a handler answers: the status code and, for 200 and 201, the habit sent as
  the body (\<open>None\<close> when the value handed to \<^verbatim>\<open>res.json\<close> is undefined). The 500
  answers of the \<^verbatim>\<open>catch\<close> blocks stand for failures of the file system or the
  database, which are not part of this model.
\<close>

datatype response =
    Status200 "habit option"
  | Status201 "habit option"
  | Status400
  | Status404

subsection \<open>JSON-file server\<close>

text \<open>
  The data file is \<open>None\<close> while it does not exist and \<open>Some habits\<close> once it holds
  an array. \<^verbatim>\<open>writeData\<close> replaces its content; \<^verbatim>\<open>readData\<close> returns the array and,
  on \<^verbatim>\<open>ENOENT\<close>, first creates the file with the empty array.
\<close>

definition writeData :: "habit list \<Rightarrow> habit list option" where
  "writeData data = Some data"

definition readData :: "habit list option \<Rightarrow> habit list \<times> habit list option" where
  "readData file = (case file of Some data \<Rightarrow> (data, file) | None \<Rightarrow> ([], writeData []))"

text \<open>
  The list of habits that the store holds, as \<^verbatim>\<open>GET /api/habits\<close> reads it: a data
  file that does not exist yet reads as the empty list.
\<close>

definition stored_habits :: "habit list option \<Rightarrow> habit list" where
  "stored_habits file = fst (readData file)"

text \<open>\<^verbatim>\<open>Array.prototype.findIndex\<close>; \<open>None\<close> is its \<^verbatim>\<open>-1\<close>.\<close>

fun findIndex :: "('a \<Rightarrow> bool) \<Rightarrow> 'a list \<Rightarrow> nat option" where
  "findIndex p [] = None"
| "findIndex p (x # xs) = (if p x then Some 0 else map_option Suc (findIndex p xs))"

text \<open>
  \<^verbatim>\<open>PATCH /api/habits/:id/toggle\<close>, lines 107 to 156 of \<^verbatim>\<open>src/server/index.js\<close>;
  \<open>hid\<close> is \<^verbatim>\<open>parseInt(req.params.id)\<close>. The handler returns its answer and the data
  file it leaves behind.
\<close>

definition json_toggle_route ::
  "int \<Rightarrow> habit list option \<Rightarrow> date \<Rightarrow> date \<Rightarrow> response \<times> habit list option" where
  "json_toggle_route hid file today yesterdayStr =
     (case readData file of
        (habits, file1) \<Rightarrow>
          (case findIndex (\<lambda>h. habit_id h = hid) habits of
             None \<Rightarrow> (Status404, file1)
           | Some habitIndex \<Rightarrow>
               (let habit = habits ! habitIndex;
                    habits' = habits[habitIndex := json_toggle habit today yesterdayStr]
                in (Status200 (Some (habits' ! habitIndex)), writeData habits'))))"

subsection \<open>SQLite server\<close>

text \<open>
  The table \<^verbatim>\<open>habits\<close> is the list of its rows. \<open>db_get\<close> is
  \<^verbatim>\<open>SELECT * FROM habits WHERE id = ?\<close> through \<^verbatim>\<open>db.get\<close> (the first matching row or
  undefined), \<open>db_update\<close> the \<^verbatim>\<open>UPDATE ... WHERE id = ?\<close> of the toggle handler.
\<close>

definition db_get :: "habit list \<Rightarrow> int \<Rightarrow> habit option" where
  "db_get db hid = find (\<lambda>r. habit_id r = hid) db"

definition db_update :: "habit list \<Rightarrow> bool \<times> nat \<times> date option \<Rightarrow> int \<Rightarrow> habit list" where
  "db_update db vals hid =
     map (\<lambda>r. if habit_id r = hid
              then (case vals of
                      (newCompletedToday, newStreak, newLastDate) \<Rightarrow>
                        r\<lparr>completed_today := newCompletedToday, streak := newStreak,
                          last_completed_date := newLastDate\<rparr>)
              else r) db"

text \<open>\<^verbatim>\<open>PATCH /api/habits/:id/toggle\<close> of the SQLite server, lines 110 to 165.\<close>

definition sqlite_toggle_route ::
  "int \<Rightarrow> habit list \<Rightarrow> date \<Rightarrow> date \<Rightarrow> response \<times> habit list" where
  "sqlite_toggle_route hid db today yesterdayStr =
     (case db_get db hid of
        None \<Rightarrow> (Status404, db)
      | Some habit \<Rightarrow>
          (let db' = db_update db (sqlite_toggle_values habit today yesterdayStr) hid
           in (Status200 (db_get db' hid), db')))"

subsection \<open>Creating a habit\<close>

text \<open>
  \<^verbatim>\<open>habitSchema\<close> is \<^verbatim>\<open>z.string().min(1, ...).max(50, ...).trim()\<close> on the field
  \<^verbatim>\<open>name\<close>. A zod string schema runs its checks in the order in which they are
  chained, on the value as it then is: \<^verbatim>\<open>min\<close> and \<^verbatim>\<open>max\<close> compare the length of the
  string as received, and \<^verbatim>\<open>trim\<close>, chained last, rewrites the value afterwards.
  The body's \<^verbatim>\<open>name\<close> is \<open>None\<close> when it is missing or not a string;
  \<open>habitSchema\<close> returns the parsed name, or \<open>None\<close> when \<^verbatim>\<open>safeParse\<close> fails.
  \<^verbatim>\<open>String.prototype.trim\<close> removes white space and line terminators at both ends;
  of these the tab, line feed, vertical tab, form feed, carriage return, space and
  no-break space are characters of \<^typ>\<open>string\<close>.
\<close>

definition js_whitespace :: "char \<Rightarrow> bool" where
  "js_whitespace c =
     (c \<in> set [CHR 0x09, CHR 0x0A, CHR 0x0B, CHR 0x0C, CHR 0x0D, CHR 0x20, CHR 0xA0])"

definition trim :: "string \<Rightarrow> string" where
  "trim s = rev (dropWhile js_whitespace (rev (dropWhile js_whitespace s)))"

definition habitSchema :: "string option \<Rightarrow> string option" where
  "habitSchema body_name =
     (case body_name of
        None \<Rightarrow> None
      | Some s \<Rightarrow>
          if length s < 1 then None
          else if length s > 50 then None
          else Some (trim s))"

text \<open>
  \<^verbatim>\<open>POST /api/habits\<close> of the JSON-file server, lines 78 to 104; \<open>now\<close> is
  \<^verbatim>\<open>Date.now()\<close>.
\<close>

definition json_create_route ::
  "string option \<Rightarrow> habit list option \<Rightarrow> int \<Rightarrow> response \<times> habit list option" where
  "json_create_route body_name file now =
     (case habitSchema body_name of
        None \<Rightarrow> (Status400, file)
      | Some nm \<Rightarrow>
          (case readData file of
             (habits, file1) \<Rightarrow>
               (let habits' = habits @ [newHabit now nm]
                in (Status201 (Some (newHabit now nm)), writeData habits'))))"

text \<open>
  \<^verbatim>\<open>POST /api/habits\<close> of the SQLite server, lines 88 to 107; \<open>lastID\<close> is the row
  id that the \<^verbatim>\<open>AUTOINCREMENT\<close> key assigns to the inserted row.
\<close>

definition sqlite_create_route ::
  "string option \<Rightarrow> habit list \<Rightarrow> int \<Rightarrow> response \<times> habit list" where
  "sqlite_create_route body_name db lastID =
     (case habitSchema body_name of
        None \<Rightarrow> (Status400, db)
      | Some nm \<Rightarrow>
          (let db' = db @ [newHabit lastID nm]
           in (Status201 (db_get db' lastID), db')))"

section \<open>The client's optimistic update\<close>

text \<open>
  \<^verbatim>\<open>toggleHabit\<close>, lines 59 to 75 of the React component: the object that replaces
  the habit with the given id before the request is sent, and the mapped list.
\<close>

definition optimistic_update :: "habit \<Rightarrow> habit" where
  "optimistic_update h =
     (let wasCompleted = completed_today h
      in h\<lparr>completed_today := \<not> wasCompleted,
           streak := (if \<not> wasCompleted then streak h + 1
                      else nat (max 0 (int (streak h) - 1)))\<rparr>)"

definition toggleHabit_optimistic :: "int \<Rightarrow> habit list \<Rightarrow> habit list" where
  "toggleHabit_optimistic hid habits =
     map (\<lambda>h. if habit_id h = hid then optimistic_update h else h) habits"

section \<open>The handlers' clock\<close>

text \<open>
  Both toggle handlers read the clock twice. \<^verbatim>\<open>today\<close> is
  \<^verbatim>\<open>new Date().toISOString().split('T')[0]\<close>: the calendar date, in UTC, of the
  instant. \<^verbatim>\<open>yesterdayStr\<close> is the same rendering of a second \<^verbatim>\<open>new Date()\<close> after
  \<^verbatim>\<open>setDate(getDate() - 1)\<close>, which steps one calendar day back in the local time of
  the server. An instant is a number of milliseconds since 1970-01-01T00:00Z.

  \<open>civil_from_days\<close> is the year, month and day of the proleptic Gregorian calendar
  for a day number (days since 1970-01-01), which is what \<^verbatim>\<open>toISOString\<close> prints:
  four digits for the years 0 to 9999, a sign and six digits otherwise.
\<close>

definition msPerDay :: int where
  "msPerDay = 86400000"

definition civil_from_days :: "int \<Rightarrow> int \<times> int \<times> int" where
  "civil_from_days z =
     (let z' = z + 719468;
          era = z' div 146097;
          doe = z' mod 146097;
          yoe = (doe - doe div 1460 + doe div 36524 - doe div 146096) div 365;
          y = yoe + era * 400;
          doy = doe - (365 * yoe + yoe div 4 - yoe div 100);
          mp = (5 * doy + 2) div 153;
          d = doy - (153 * mp + 2) div 5 + 1;
          m = (if mp < 10 then mp + 3 else mp - 9)
      in (if m \<le> 2 then y + 1 else y, m, d))"

definition digit :: "int \<Rightarrow> char" where
  "digit k = ''0123456789'' ! nat (k mod 10)"

definition digits :: "nat \<Rightarrow> int \<Rightarrow> string" where
  "digits w n = map (\<lambda>i. digit (n div 10 ^ i)) (rev [0..<w])"

definition toISODate :: "int \<Rightarrow> date" where
  "toISODate t =
     (case civil_from_days (t div msPerDay) of
        (y, m, d) \<Rightarrow>
          (if 0 \<le> y \<and> y \<le> 9999 then digits 4 y
           else (if y < 0 then ''-'' else ''+'') @ digits 6 \<bar>y\<bar>)
          @ ''-'' @ digits 2 m @ ''-'' @ digits 2 d)"

text \<open>
  The time zone of the server process is its offset from UTC in milliseconds, given
  for an instant (\<open>LocalTZA_utc\<close>) and for a local time value (\<open>LocalTZA_local\<close>), as
  in the language definition of \<^verbatim>\<open>Date\<close>. \<^verbatim>\<open>setDate(getDate() - 1)\<close> takes the local
  time value of the instant, moves it back by one day with the time of day kept,
  and converts the result to an instant with the offset that holds there.
\<close>

record timezone =
  LocalTZA_utc :: "int \<Rightarrow> int"
  LocalTZA_local :: "int \<Rightarrow> int"

definition setDate_yesterday :: "timezone \<Rightarrow> int \<Rightarrow> int" where
  "setDate_yesterday tz now =
     (let t = now + LocalTZA_utc tz now;
          newDate = t - msPerDay
      in newDate - LocalTZA_local tz newDate)"

text \<open>
  The pair \<^verbatim>\<open>(today, yesterdayStr)\<close> of a request whose two clock readings are
  \<open>now1\<close> and \<open>now2\<close>.
\<close>

definition handler_dates :: "timezone \<Rightarrow> int \<Rightarrow> int \<Rightarrow> date \<times> date" where
  "handler_dates tz now1 now2 = (toISODate now1, toISODate (setDate_yesterday tz now2))"

text \<open>
  The time zone \<^verbatim>\<open>America/New_York\<close> during 2024: five hours behind UTC, and four
  hours behind from 2024-03-10T07:00Z (02:00 local becomes 03:00) until
  2024-11-03T06:00Z (02:00 local becomes 01:00).
\<close>

definition new_york_2024 :: timezone where
  "new_york_2024 =
     \<lparr>LocalTZA_utc = (\<lambda>t. if 1710054000000 \<le> t \<and> t < 1730613600000
                           then - 14400000 else - 18000000),
      LocalTZA_local = (\<lambda>t. if 1710039600000 \<le> t \<and> t < 1730599200000
                             then - 14400000 else - 18000000)\<rparr>"

section \<open>Basic facts about one transition\<close>

lemma json_toggle_mark:
  "\<not> completed_today h \<Longrightarrow>
   json_toggle h t y =
     h\<lparr>completed_today := True,
       streak := (if last_completed_date h = Some y then streak h + 1
                  else if last_completed_date h \<noteq> Some t then 1 else streak h),
       last_completed_date := Some t\<rparr>"
  by (simp add: json_toggle_def json_toggle_values_def Let_def)

lemma json_toggle_unmark:
  "completed_today h \<Longrightarrow>
   json_toggle h t y =
     (if last_completed_date h = Some t
      then h\<lparr>completed_today := False, streak := streak h - 1, last_completed_date := None\<rparr>
      else h\<lparr>completed_today := False\<rparr>)"
  by (simp add: json_toggle_def json_toggle_values_def Let_def)

lemma sqlite_toggle_mark:
  "\<not> completed_today h \<Longrightarrow>
   sqlite_toggle h t y =
     h\<lparr>completed_today := True,
       streak := (if last_completed_date h = Some t then streak h
                  else if last_completed_date h = Some y then streak h + 1 else 1),
       last_completed_date := Some t\<rparr>"
  by (simp add: sqlite_toggle_def sqlite_toggle_values_def Let_def)

lemma sqlite_toggle_unmark:
  "completed_today h \<Longrightarrow>
   sqlite_toggle h t y =
     (if last_completed_date h = Some t
      then h\<lparr>completed_today := False, streak := streak h - 1, last_completed_date := None\<rparr>
      else h\<lparr>completed_today := False\<rparr>)"
  by (simp add: sqlite_toggle_def sqlite_toggle_values_def Let_def)

section \<open>Runs of toggles\<close>

lemma json_toggle_inv:
  "(streak h = 0 \<longrightarrow> last_completed_date h = None) \<Longrightarrow>
   (streak (json_toggle h t y) = 0 \<longrightarrow> last_completed_date (json_toggle h t y) = None)"
  by (cases "completed_today h") (auto simp: json_toggle_mark json_toggle_unmark)

lemma sqlite_toggle_inv:
  "(streak h = 0 \<longrightarrow> last_completed_date h = None) \<Longrightarrow>
   (streak (sqlite_toggle h t y) = 0 \<longrightarrow> last_completed_date (sqlite_toggle h t y) = None)"
  by (cases "completed_today h") (auto simp: sqlite_toggle_mark sqlite_toggle_unmark)

lemma json_toggles_inv:
  "(streak h = 0 \<longrightarrow> last_completed_date h = None) \<Longrightarrow>
   (streak (json_toggles h calls) = 0 \<longrightarrow> last_completed_date (json_toggles h calls) = None)"
proof (induction calls arbitrary: h)
  case Nil
  then show ?case by simp
next
  case (Cons c calls)
  obtain t y where c: "c = (t, y)" by (cases c)
  show ?case unfolding c json_toggles.simps
    by (rule Cons.IH) (rule json_toggle_inv, rule Cons.prems)
qed

lemma sqlite_toggles_inv:
  "(streak h = 0 \<longrightarrow> last_completed_date h = None) \<Longrightarrow>
   (streak (sqlite_toggles h calls) = 0 \<longrightarrow> last_completed_date (sqlite_toggles h calls) = None)"
proof (induction calls arbitrary: h)
  case Nil
  then show ?case by simp
next
  case (Cons c calls)
  obtain t y where c: "c = (t, y)" by (cases c)
  show ?case unfolding c sqlite_toggles.simps
    by (rule Cons.IH) (rule sqlite_toggle_inv, rule Cons.prems)
qed

text \<open>
  Claim C1, as the code has it. Start from a freshly created habit and apply any
  finite run of toggles, each with its own clock reading, on either server. If the
  streak is then 0, \<^verbatim>\<open>last_completed_date\<close> is null; put the other way round, a habit
  that carries a date has a streak of at least 1.
\<close>

theorem C1_zero_streak_has_no_date:
  "(streak (json_toggles (newHabit hid nm) calls) = 0 \<longrightarrow>
      last_completed_date (json_toggles (newHabit hid nm) calls) = None) \<and>
   (streak (sqlite_toggles (newHabit hid nm) calls) = 0 \<longrightarrow>
      last_completed_date (sqlite_toggles (newHabit hid nm) calls) = None)"
proof
  have fresh: "streak (newHabit hid nm) = 0 \<longrightarrow> last_completed_date (newHabit hid nm) = None"
    by (simp add: newHabit_def)
  show "streak (json_toggles (newHabit hid nm) calls) = 0 \<longrightarrow>
      last_completed_date (json_toggles (newHabit hid nm) calls) = None"
    using fresh by (rule json_toggles_inv)
  show "streak (sqlite_toggles (newHabit hid nm) calls) = 0 \<longrightarrow>
      last_completed_date (sqlite_toggles (newHabit hid nm) calls) = None"
    using fresh by (rule sqlite_toggles_inv)
qed

text \<open>
  The theorem at a run that ends with streak 0: done and undone on 2024-01-01.
\<close>

theorem C1_zero_streak_has_no_date_witness:
  "streak (json_toggles (newHabit 1 ''run'')
      [(''2024-01-01'', ''2023-12-31''), (''2024-01-01'', ''2023-12-31'')]) = 0 \<and>
   last_completed_date (json_toggles (newHabit 1 ''run'')
      [(''2024-01-01'', ''2023-12-31''), (''2024-01-01'', ''2023-12-31'')]) = None \<and>
   streak (sqlite_toggles (newHabit 1 ''run'')
      [(''2024-01-01'', ''2023-12-31''), (''2024-01-01'', ''2023-12-31'')]) = 0 \<and>
   last_completed_date (sqlite_toggles (newHabit 1 ''run'')
      [(''2024-01-01'', ''2023-12-31''), (''2024-01-01'', ''2023-12-31'')]) = None"
  using C1_zero_streak_has_no_date [of 1 "''run''"
      "[(''2024-01-01'', ''2023-12-31''), (''2024-01-01'', ''2023-12-31'')]"]
  by (simp add: newHabit_def json_toggle_def json_toggle_values_def
      sqlite_toggle_def sqlite_toggle_values_def)

text \<open>
  The equivalence that C1 states fails in the other direction. Done on 2024-01-01;
  on 2024-01-02 unchecked (nothing to undo, the date is yesterday's), checked again
  (streak 2) and unchecked: the date is now null and the streak is 1.
\<close>

theorem C1_null_date_with_streak_counterexample:
  "\<not> (last_completed_date (json_toggles (newHabit 1 ''run'')
        [(''2024-01-01'', ''2023-12-31''), (''2024-01-02'', ''2024-01-01''),
         (''2024-01-02'', ''2024-01-01''), (''2024-01-02'', ''2024-01-01'')]) = None
      \<longleftrightarrow>
      streak (json_toggles (newHabit 1 ''run'')
        [(''2024-01-01'', ''2023-12-31''), (''2024-01-02'', ''2024-01-01''),
         (''2024-01-02'', ''2024-01-01''), (''2024-01-02'', ''2024-01-01'')]) = 0) \<and>
   \<not> (last_completed_date (sqlite_toggles (newHabit 1 ''run'')
        [(''2024-01-01'', ''2023-12-31''), (''2024-01-02'', ''2024-01-01''),
         (''2024-01-02'', ''2024-01-01''), (''2024-01-02'', ''2024-01-01'')]) = None
      \<longleftrightarrow>
      streak (sqlite_toggles (newHabit 1 ''run'')
        [(''2024-01-01'', ''2023-12-31''), (''2024-01-02'', ''2024-01-01''),
         (''2024-01-02'', ''2024-01-01''), (''2024-01-02'', ''2024-01-01'')]) = 0)"
  by (simp add: newHabit_def json_toggle_def json_toggle_values_def
      sqlite_toggle_def sqlite_toggle_values_def)

section \<open>What the clock reads\<close>

text \<open>
  In a zone with a fixed offset the instant behind \<^verbatim>\<open>yesterdayStr\<close> lies on the UTC
  day before the one of the reading.
\<close>

lemma fixed_offset_yesterday:
  assumes "LocalTZA_utc tz = (\<lambda>t. c)" and "LocalTZA_local tz = (\<lambda>t. c)"
  shows "setDate_yesterday tz now div msPerDay = now div msPerDay - 1"
proof -
  have "setDate_yesterday tz now = now - 1 * 86400000"
    by (simp add: setDate_yesterday_def assms msPerDay_def Let_def)
  then show ?thesis
    by (simp add: msPerDay_def del: mult_1)
qed

text \<open>
  With daylight saving time the local day is not always 24 hours long. In New York
  at 2024-11-04T00:30Z (19:30 local on the 25-hour day 2024-11-03) the handler
  reads today 2024-11-04 and yesterday 2024-11-02; at 2024-03-10T23:30Z (19:30
  local on the 23-hour day 2024-03-10) it reads 2024-03-10 for both.
\<close>

lemma new_york_fall_back_dates:
  "handler_dates new_york_2024 1730680200000 1730680200000 = (''2024-11-04'', ''2024-11-02'')"
  by code_simp

lemma new_york_spring_forward_dates:
  "handler_dates new_york_2024 1710113400000 1710113400000 = (''2024-03-10'', ''2024-03-10'')"
  by code_simp

lemma new_york_ordinary_dates:
  "handler_dates new_york_2024 1704888000000 1704888000000 = (''2024-01-10'', ''2024-01-09'')"
  by code_simp

section \<open>One toggle\<close>

text \<open>
  Claim C3 at the clock reading of 2024-11-04T00:30Z in New York, where the
  handlers compute today 2024-11-04 and yesterday 2024-11-02. A habit with streak
  3 that is not completed and was last done on 2024-11-03, the day before today,
  is marked done: both servers set the flag and the date as the claim says, but
  store streak 1, where the claim has streak 4.
\<close>

theorem C3_habit_of_yesterday_is_reset:
  "json_toggle \<lparr>habit_id = 1, name = ''run'', streak = 3, completed_today = False,
        last_completed_date = Some ''2024-11-03''\<rparr> ''2024-11-04'' ''2024-11-02'' =
     \<lparr>habit_id = 1, name = ''run'', streak = 1, completed_today = True,
        last_completed_date = Some ''2024-11-04''\<rparr> \<and>
   sqlite_toggle \<lparr>habit_id = 1, name = ''run'', streak = 3, completed_today = False,
        last_completed_date = Some ''2024-11-03''\<rparr> ''2024-11-04'' ''2024-11-02'' =
     \<lparr>habit_id = 1, name = ''run'', streak = 1, completed_today = True,
        last_completed_date = Some ''2024-11-04''\<rparr>"
  by (simp add: json_toggle_def json_toggle_values_def sqlite_toggle_def sqlite_toggle_values_def)

text \<open>
  On an ordinary day the same habit continues its run: the scenario of the
  specification, streak 3, last done 2024-01-09, toggled on 2024-01-10.
\<close>

lemma mark_done_scenario:
  "json_toggle \<lparr>habit_id = 1, name = ''run'', streak = 3, completed_today = False,
        last_completed_date = Some ''2024-01-09''\<rparr> ''2024-01-10'' ''2024-01-09'' =
     \<lparr>habit_id = 1, name = ''run'', streak = 4, completed_today = True,
        last_completed_date = Some ''2024-01-10''\<rparr> \<and>
   sqlite_toggle \<lparr>habit_id = 1, name = ''run'', streak = 3, completed_today = False,
        last_completed_date = Some ''2024-01-09''\<rparr> ''2024-01-10'' ''2024-01-09'' =
     \<lparr>habit_id = 1, name = ''run'', streak = 4, completed_today = True,
        last_completed_date = Some ''2024-01-10''\<rparr>"
  by (simp add: json_toggle_def json_toggle_values_def sqlite_toggle_def sqlite_toggle_values_def)

text \<open>
  Claim C4. A completed habit is toggled with clock reading \<open>today\<close>. On both servers
  the result is not completed; when the old \<^verbatim>\<open>last_completed_date\<close> is \<open>today\<close> the
  streak becomes \<open>max 0 (streak - 1)\<close> and the date null, and otherwise streak and
  date stay as they were.
\<close>

theorem C4_unmark:
  assumes "completed_today h"
  shows "completed_today (json_toggle h today yesterdayStr) = False \<and>
         (if last_completed_date h = Some today
          then int (streak (json_toggle h today yesterdayStr)) = max 0 (int (streak h) - 1) \<and>
               last_completed_date (json_toggle h today yesterdayStr) = None
          else streak (json_toggle h today yesterdayStr) = streak h \<and>
               last_completed_date (json_toggle h today yesterdayStr) = last_completed_date h) \<and>
         completed_today (sqlite_toggle h today yesterdayStr) = False \<and>
         (if last_completed_date h = Some today
          then int (streak (sqlite_toggle h today yesterdayStr)) = max 0 (int (streak h) - 1) \<and>
               last_completed_date (sqlite_toggle h today yesterdayStr) = None
          else streak (sqlite_toggle h today yesterdayStr) = streak h \<and>
               last_completed_date (sqlite_toggle h today yesterdayStr) = last_completed_date h)"
  using assms by (auto simp: json_toggle_unmark sqlite_toggle_unmark)

text \<open>The scenario of the specification: streak 5, done on 2024-03-01, undone that day.\<close>

theorem C4_unmark_witness:
  "completed_today \<lparr>habit_id = 1, name = ''run'', streak = 5, completed_today = True,
        last_completed_date = Some ''2024-03-01''\<rparr> \<and>
   json_toggle \<lparr>habit_id = 1, name = ''run'', streak = 5, completed_today = True,
        last_completed_date = Some ''2024-03-01''\<rparr> ''2024-03-01'' ''2024-02-29'' =
     \<lparr>habit_id = 1, name = ''run'', streak = 4, completed_today = False,
        last_completed_date = None\<rparr> \<and>
   sqlite_toggle \<lparr>habit_id = 1, name = ''run'', streak = 5, completed_today = True,
        last_completed_date = Some ''2024-03-01''\<rparr> ''2024-03-01'' ''2024-02-29'' =
     \<lparr>habit_id = 1, name = ''run'', streak = 4, completed_today = False,
        last_completed_date = None\<rparr>"
  using C4_unmark [where h = "\<lparr>habit_id = 1, name = ''run'', streak = 5,
        completed_today = True, last_completed_date = Some ''2024-03-01''\<rparr>"
      and today = "''2024-03-01''" and yesterdayStr = "''2024-02-29''"]
  by (simp add: json_toggle_def json_toggle_values_def sqlite_toggle_def sqlite_toggle_values_def)

text \<open>
  The two servers test in a different order: the JSON-file server compares the
  habit's date with \<^verbatim>\<open>yesterdayStr\<close> first, the SQLite server with \<^verbatim>\<open>today\<close> first.
  They compute the same three values except for a habit that is not completed and
  dated today while \<^verbatim>\<open>yesterdayStr\<close> is the same string as \<^verbatim>\<open>today\<close>.
\<close>

lemma toggle_values_agree_iff:
  "json_toggle_values h today yesterdayStr = sqlite_toggle_values h today yesterdayStr \<longleftrightarrow>
     \<not> (\<not> completed_today h \<and> yesterdayStr = today \<and> last_completed_date h = Some today)"
  by (auto simp: json_toggle_values_def sqlite_toggle_values_def Let_def)





text \<open>
  Neither handler clears \<^verbatim>\<open>completed_today\<close> when the date changes. A toggle on a
  later day therefore finds the habit still completed and takes the unmark branch.
\<close>

lemma json_toggles_three:
  assumes "\<not> completed_today h" and "T1 \<noteq> D" and "T2 \<noteq> D"
  shows "json_toggles h [(D, Y0), (T1, Y1)] = (json_toggle h D Y0)\<lparr>completed_today := False\<rparr>"
    and "json_toggles h [(D, Y0), (T1, Y1), (T2, Y2)] =
           (json_toggle h D Y0)\<lparr>completed_today := True,
              streak := (if Y2 = D then streak (json_toggle h D Y0) + 1 else 1),
              last_completed_date := Some T2\<rparr>"
  using assms by (simp_all add: json_toggle_mark json_toggle_unmark)

lemma sqlite_toggles_three:
  assumes "\<not> completed_today h" and "T1 \<noteq> D" and "T2 \<noteq> D"
  shows "sqlite_toggles h [(D, Y0), (T1, Y1)] = (sqlite_toggle h D Y0)\<lparr>completed_today := False\<rparr>"
    and "sqlite_toggles h [(D, Y0), (T1, Y1), (T2, Y2)] =
           (sqlite_toggle h D Y0)\<lparr>completed_today := True,
              streak := (if Y2 = D then streak (sqlite_toggle h D Y0) + 1 else 1),
              last_completed_date := Some T2\<rparr>"
  using assms by (simp_all add: sqlite_toggle_mark sqlite_toggle_unmark)

text \<open>
  Claim C7, as the code has it. A habit that is not completed is marked done by a
  toggle on day \<open>D\<close>. A following toggle on another day \<open>T1\<close> only clears
  \<^verbatim>\<open>completed_today\<close>: streak and date stay as the first toggle left them. A third
  toggle, on a day \<open>T2\<close> other than \<open>D\<close>, marks the habit done again; the streak is
  then exactly 1 above the streak after the first toggle when the yesterday that
  the handler computes is \<open>D\<close>, and 1 otherwise. Both servers.
\<close>

theorem C7_second_mark_takes_a_third_toggle:
  assumes "\<not> completed_today h" and "T1 \<noteq> D" and "T2 \<noteq> D"
  shows "completed_today (json_toggle h D Y0) \<and>
         completed_today (json_toggles h [(D, Y0), (T1, Y1)]) = False \<and>
         streak (json_toggles h [(D, Y0), (T1, Y1)]) = streak (json_toggle h D Y0) \<and>
         last_completed_date (json_toggles h [(D, Y0), (T1, Y1)]) = Some D \<and>
         completed_today (json_toggles h [(D, Y0), (T1, Y1), (T2, Y2)]) \<and>
         last_completed_date (json_toggles h [(D, Y0), (T1, Y1), (T2, Y2)]) = Some T2 \<and>
         streak (json_toggles h [(D, Y0), (T1, Y1), (T2, Y2)]) =
           (if Y2 = D then streak (json_toggle h D Y0) + 1 else 1) \<and>
         completed_today (sqlite_toggle h D Y0) \<and>
         completed_today (sqlite_toggles h [(D, Y0), (T1, Y1)]) = False \<and>
         streak (sqlite_toggles h [(D, Y0), (T1, Y1)]) = streak (sqlite_toggle h D Y0) \<and>
         last_completed_date (sqlite_toggles h [(D, Y0), (T1, Y1)]) = Some D \<and>
         completed_today (sqlite_toggles h [(D, Y0), (T1, Y1), (T2, Y2)]) \<and>
         last_completed_date (sqlite_toggles h [(D, Y0), (T1, Y1), (T2, Y2)]) = Some T2 \<and>
         streak (sqlite_toggles h [(D, Y0), (T1, Y1), (T2, Y2)]) =
           (if Y2 = D then streak (sqlite_toggle h D Y0) + 1 else 1)"
  unfolding json_toggles_three [OF assms] sqlite_toggles_three [OF assms]
  using assms by (simp add: json_toggle_mark sqlite_toggle_mark)

text \<open>
  Streak 3, last done 2024-01-09, marked done on 2024-01-10 (streak 4). Two
  toggles on 2024-01-11 end with streak 5; two toggles on 2024-01-12, a day
  skipped, end with streak 1.
\<close>

theorem C7_second_mark_takes_a_third_toggle_witness:
  "\<not> completed_today \<lparr>habit_id = 1, name = ''run'', streak = 3, completed_today = False,
        last_completed_date = Some ''2024-01-09''\<rparr> \<and>
   ''2024-01-11'' \<noteq> ''2024-01-10'' \<and> ''2024-01-12'' \<noteq> ''2024-01-10'' \<and>
   json_toggles \<lparr>habit_id = 1, name = ''run'', streak = 3, completed_today = False,
        last_completed_date = Some ''2024-01-09''\<rparr>
      [(''2024-01-10'', ''2024-01-09''), (''2024-01-11'', ''2024-01-10''),
       (''2024-01-11'', ''2024-01-10'')] =
     \<lparr>habit_id = 1, name = ''run'', streak = 5, completed_today = True,
        last_completed_date = Some ''2024-01-11''\<rparr> \<and>
   json_toggles \<lparr>habit_id = 1, name = ''run'', streak = 3, completed_today = False,
        last_completed_date = Some ''2024-01-09''\<rparr>
      [(''2024-01-10'', ''2024-01-09''), (''2024-01-12'', ''2024-01-11''),
       (''2024-01-12'', ''2024-01-11'')] =
     \<lparr>habit_id = 1, name = ''run'', streak = 1, completed_today = True,
        last_completed_date = Some ''2024-01-12''\<rparr> \<and>
   sqlite_toggles \<lparr>habit_id = 1, name = ''run'', streak = 3, completed_today = False,
        last_completed_date = Some ''2024-01-09''\<rparr>
      [(''2024-01-10'', ''2024-01-09''), (''2024-01-11'', ''2024-01-10''),
       (''2024-01-11'', ''2024-01-10'')] =
     \<lparr>habit_id = 1, name = ''run'', streak = 5, completed_today = True,
        last_completed_date = Some ''2024-01-11''\<rparr> \<and>
   sqlite_toggles \<lparr>habit_id = 1, name = ''run'', streak = 3, completed_today = False,
        last_completed_date = Some ''2024-01-09''\<rparr>
      [(''2024-01-10'', ''2024-01-09''), (''2024-01-12'', ''2024-01-11''),
       (''2024-01-12'', ''2024-01-11'')] =
     \<lparr>habit_id = 1, name = ''run'', streak = 1, completed_today = True,
        last_completed_date = Some ''2024-01-12''\<rparr>"
  using C7_second_mark_takes_a_third_toggle [where h = "\<lparr>habit_id = 1, name = ''run'',
        streak = 3, completed_today = False, last_completed_date = Some ''2024-01-09''\<rparr>"
      and D = "''2024-01-10''" and ?Y0.0 = "''2024-01-09''"
      and ?T1.0 = "''2024-01-11''" and ?Y1.0 = "''2024-01-10''"
      and ?T2.0 = "''2024-01-11''" and ?Y2.0 = "''2024-01-10''"]
    C7_second_mark_takes_a_third_toggle [where h = "\<lparr>habit_id = 1, name = ''run'',
        streak = 3, completed_today = False, last_completed_date = Some ''2024-01-09''\<rparr>"
      and D = "''2024-01-10''" and ?Y0.0 = "''2024-01-09''"
      and ?T1.0 = "''2024-01-12''" and ?Y1.0 = "''2024-01-11''"
      and ?T2.0 = "''2024-01-12''" and ?Y2.0 = "''2024-01-11''"]
  by (simp add: json_toggle_def json_toggle_values_def sqlite_toggle_def sqlite_toggle_values_def)

text \<open>
  C7 as stated fails for the two toggles it names. Streak 3, last done 2024-01-09:
  the toggle on 2024-01-10 marks the habit done with streak 4; the next toggle, on
  2024-01-11 or on 2024-01-12, unchecks it and leaves streak 4, neither 5 nor 1.
\<close>

theorem C7_second_toggle_unchecks_counterexample:
  "\<not> (streak (json_toggles \<lparr>habit_id = 1, name = ''run'', streak = 3,
          completed_today = False, last_completed_date = Some ''2024-01-09''\<rparr>
        [(''2024-01-10'', ''2024-01-09''), (''2024-01-11'', ''2024-01-10'')]) =
       streak (json_toggle \<lparr>habit_id = 1, name = ''run'', streak = 3,
          completed_today = False, last_completed_date = Some ''2024-01-09''\<rparr>
        ''2024-01-10'' ''2024-01-09'') + 1) \<and>
   \<not> (streak (json_toggles \<lparr>habit_id = 1, name = ''run'', streak = 3,
          completed_today = False, last_completed_date = Some ''2024-01-09''\<rparr>
        [(''2024-01-10'', ''2024-01-09''), (''2024-01-12'', ''2024-01-11'')]) = 1) \<and>
   \<not> (streak (sqlite_toggles \<lparr>habit_id = 1, name = ''run'', streak = 3,
          completed_today = False, last_completed_date = Some ''2024-01-09''\<rparr>
        [(''2024-01-10'', ''2024-01-09''), (''2024-01-11'', ''2024-01-10'')]) =
       streak (sqlite_toggle \<lparr>habit_id = 1, name = ''run'', streak = 3,
          completed_today = False, last_completed_date = Some ''2024-01-09''\<rparr>
        ''2024-01-10'' ''2024-01-09'') + 1) \<and>
   \<not> (streak (sqlite_toggles \<lparr>habit_id = 1, name = ''run'', streak = 3,
          completed_today = False, last_completed_date = Some ''2024-01-09''\<rparr>
        [(''2024-01-10'', ''2024-01-09''), (''2024-01-12'', ''2024-01-11'')]) = 1)"
  by (simp add: json_toggle_def json_toggle_values_def sqlite_toggle_def sqlite_toggle_values_def)

section \<open>The client's prediction against the servers\<close>

text \<open>
  Claim C6, as the code has it. The client's optimistic update flips
  \<^verbatim>\<open>completed_today\<close>, sets the streak to \<open>streak + 1\<close> when marking and to
  \<open>max 0 (streak - 1)\<close> when unmarking, and leaves id, name and
  \<^verbatim>\<open>last_completed_date\<close> as they are. For every habit and every clock reading of
  a server its \<^verbatim>\<open>completed_today\<close> is the server's. When unmarking, its streak is
  the server's exactly when the habit's date is \<open>today\<close> or the streak is 0, and its
  date is the server's exactly when the habit's date is not \<open>today\<close>. When marking,
  its date is the server's exactly when the habit's date is already \<open>today\<close>; its
  streak is the JSON-file server's exactly when the habit's date is the server's
  \<open>yesterdayStr\<close>, or is not \<open>today\<close> while the streak is 0, and the SQLite server's
  exactly when the habit's date is not \<open>today\<close> and either is the server's
  \<open>yesterdayStr\<close> or the streak is 0.
\<close>

theorem C6_client_against_server:
  "habit_id (optimistic_update h) = habit_id h \<and>
   name (optimistic_update h) = name h \<and>
   last_completed_date (optimistic_update h) = last_completed_date h \<and>
   completed_today (optimistic_update h) = (\<not> completed_today h) \<and>
   int (streak (optimistic_update h)) =
     (if completed_today h then max 0 (int (streak h) - 1) else int (streak h) + 1) \<and>
   completed_today (optimistic_update h) = completed_today (json_toggle h today yesterdayStr) \<and>
   completed_today (optimistic_update h) = completed_today (sqlite_toggle h today yesterdayStr) \<and>
   (completed_today h \<longrightarrow>
      (streak (optimistic_update h) = streak (json_toggle h today yesterdayStr) \<longleftrightarrow>
         last_completed_date h = Some today \<or> streak h = 0) \<and>
      (streak (optimistic_update h) = streak (sqlite_toggle h today yesterdayStr) \<longleftrightarrow>
         last_completed_date h = Some today \<or> streak h = 0) \<and>
      (last_completed_date (optimistic_update h) =
         last_completed_date (json_toggle h today yesterdayStr) \<longleftrightarrow>
         last_completed_date h \<noteq> Some today) \<and>
      (last_completed_date (optimistic_update h) =
         last_completed_date (sqlite_toggle h today yesterdayStr) \<longleftrightarrow>
         last_completed_date h \<noteq> Some today)) \<and>
   (\<not> completed_today h \<longrightarrow>
      (last_completed_date (optimistic_update h) =
         last_completed_date (json_toggle h today yesterdayStr) \<longleftrightarrow>
         last_completed_date h = Some today) \<and>
      (last_completed_date (optimistic_update h) =
         last_completed_date (sqlite_toggle h today yesterdayStr) \<longleftrightarrow>
         last_completed_date h = Some today) \<and>
      (streak (optimistic_update h) = streak (json_toggle h today yesterdayStr) \<longleftrightarrow>
         last_completed_date h = Some yesterdayStr \<or>
         (last_completed_date h \<noteq> Some today \<and> streak h = 0)) \<and>
      (streak (optimistic_update h) = streak (sqlite_toggle h today yesterdayStr) \<longleftrightarrow>
         last_completed_date h \<noteq> Some today \<and>
         (last_completed_date h = Some yesterdayStr \<or> streak h = 0)))"
  by (cases "completed_today h")
     (auto simp: optimistic_update_def json_toggle_mark sqlite_toggle_mark
        json_toggle_unmark sqlite_toggle_unmark)

text \<open>
  Marking a habit with streak 3 last done on 2024-01-09 at the reading
  (2024-01-10, 2024-01-09): client and servers agree on the flag and on streak 4,
  and the client keeps the old date. Unmarking a habit with streak 5 done on
  2024-03-01 at the reading (2024-03-01, 2024-02-29): they agree on the flag and
  on streak 4, and the client keeps the date that the servers set to null.
\<close>

theorem C6_client_against_server_witness:
  "\<not> completed_today \<lparr>habit_id = 1, name = ''run'', streak = 3, completed_today = False,
        last_completed_date = Some ''2024-01-09''\<rparr> \<and>
   optimistic_update \<lparr>habit_id = 1, name = ''run'', streak = 3, completed_today = False,
        last_completed_date = Some ''2024-01-09''\<rparr> =
     \<lparr>habit_id = 1, name = ''run'', streak = 4, completed_today = True,
        last_completed_date = Some ''2024-01-09''\<rparr> \<and>
   json_toggle \<lparr>habit_id = 1, name = ''run'', streak = 3, completed_today = False,
        last_completed_date = Some ''2024-01-09''\<rparr> ''2024-01-10'' ''2024-01-09'' =
     \<lparr>habit_id = 1, name = ''run'', streak = 4, completed_today = True,
        last_completed_date = Some ''2024-01-10''\<rparr> \<and>
   sqlite_toggle \<lparr>habit_id = 1, name = ''run'', streak = 3, completed_today = False,
        last_completed_date = Some ''2024-01-09''\<rparr> ''2024-01-10'' ''2024-01-09'' =
     \<lparr>habit_id = 1, name = ''run'', streak = 4, completed_today = True,
        last_completed_date = Some ''2024-01-10''\<rparr> \<and>
   completed_today \<lparr>habit_id = 1, name = ''run'', streak = 5, completed_today = True,
        last_completed_date = Some ''2024-03-01''\<rparr> \<and>
   optimistic_update \<lparr>habit_id = 1, name = ''run'', streak = 5, completed_today = True,
        last_completed_date = Some ''2024-03-01''\<rparr> =
     \<lparr>habit_id = 1, name = ''run'', streak = 4, completed_today = False,
        last_completed_date = Some ''2024-03-01''\<rparr> \<and>
   json_toggle \<lparr>habit_id = 1, name = ''run'', streak = 5, completed_today = True,
        last_completed_date = Some ''2024-03-01''\<rparr> ''2024-03-01'' ''2024-02-29'' =
     \<lparr>habit_id = 1, name = ''run'', streak = 4, completed_today = False,
        last_completed_date = None\<rparr> \<and>
   sqlite_toggle \<lparr>habit_id = 1, name = ''run'', streak = 5, completed_today = True,
        last_completed_date = Some ''2024-03-01''\<rparr> ''2024-03-01'' ''2024-02-29'' =
     \<lparr>habit_id = 1, name = ''run'', streak = 4, completed_today = False,
        last_completed_date = None\<rparr>"
  using C6_client_against_server [where h = "\<lparr>habit_id = 1, name = ''run'', streak = 3,
        completed_today = False, last_completed_date = Some ''2024-01-09''\<rparr>"
      and today = "''2024-01-10''" and yesterdayStr = "''2024-01-09''"]
    C6_client_against_server [where h = "\<lparr>habit_id = 1, name = ''run'', streak = 5,
        completed_today = True, last_completed_date = Some ''2024-03-01''\<rparr>"
      and today = "''2024-03-01''" and yesterdayStr = "''2024-02-29''"]
  by (simp add: optimistic_update_def json_toggle_def json_toggle_values_def
      sqlite_toggle_def sqlite_toggle_values_def)

text \<open>
  C6 as stated fails: streak 3, last done 2024-01-05, toggled on 2024-01-10. The
  client shows streak 4 and keeps the date; the servers store streak 1 and the new
  date.
\<close>

theorem C6_client_differs_counterexample:
  "\<not> (streak (optimistic_update \<lparr>habit_id = 1, name = ''run'', streak = 3,
          completed_today = False, last_completed_date = Some ''2024-01-05''\<rparr>) =
       streak (json_toggle \<lparr>habit_id = 1, name = ''run'', streak = 3,
          completed_today = False, last_completed_date = Some ''2024-01-05''\<rparr>
          ''2024-01-10'' ''2024-01-09'')) \<and>
   \<not> (last_completed_date (optimistic_update \<lparr>habit_id = 1, name = ''run'', streak = 3,
          completed_today = False, last_completed_date = Some ''2024-01-05''\<rparr>) =
       last_completed_date (json_toggle \<lparr>habit_id = 1, name = ''run'', streak = 3,
          completed_today = False, last_completed_date = Some ''2024-01-05''\<rparr>
          ''2024-01-10'' ''2024-01-09'')) \<and>
   \<not> (streak (optimistic_update \<lparr>habit_id = 1, name = ''run'', streak = 3,
          completed_today = False, last_completed_date = Some ''2024-01-05''\<rparr>) =
       streak (sqlite_toggle \<lparr>habit_id = 1, name = ''run'', streak = 3,
          completed_today = False, last_completed_date = Some ''2024-01-05''\<rparr>
          ''2024-01-10'' ''2024-01-09'')) \<and>
   \<not> (last_completed_date (optimistic_update \<lparr>habit_id = 1, name = ''run'', streak = 3,
          completed_today = False, last_completed_date = Some ''2024-01-05''\<rparr>) =
       last_completed_date (sqlite_toggle \<lparr>habit_id = 1, name = ''run'', streak = 3,
          completed_today = False, last_completed_date = Some ''2024-01-05''\<rparr>
          ''2024-01-10'' ''2024-01-09''))"
  by (simp add: optimistic_update_def json_toggle_def json_toggle_values_def
      sqlite_toggle_def sqlite_toggle_values_def)

section \<open>The toggle handlers and the store\<close>

lemma findIndex_None_iff: "findIndex p xs = None \<longleftrightarrow> (\<forall>x\<in>set xs. \<not> p x)"
  by (induction xs) auto

lemma findIndex_Some: "findIndex p xs = Some i \<Longrightarrow> i < length xs \<and> p (xs ! i)"
  by (induction xs arbitrary: i) (auto split: if_splits)

lemma find_Some_in: "find p xs = Some x \<Longrightarrow> x \<in> set xs \<and> p x"
  by (induction xs) (auto split: if_splits)

lemma json_toggle_id_name:
  "habit_id (json_toggle h t y) = habit_id h \<and> name (json_toggle h t y) = name h"
  by (simp add: json_toggle_def split: prod.split)

lemma stored_habits_readData: "stored_habits (snd (readData file)) = stored_habits file"
  by (simp add: stored_habits_def readData_def writeData_def split: option.split)

lemma readData_existing: "file \<noteq> None \<Longrightarrow> snd (readData file) = file"
  by (auto simp: readData_def)

lemma json_route_not_found:
  "fst (json_toggle_route hid file t y) = Status404 \<longleftrightarrow>
     hid \<notin> habit_id ` set (stored_habits file)"
proof (cases "findIndex (\<lambda>h. habit_id h = hid) (stored_habits file)")
  case None
  then show ?thesis
    using findIndex_None_iff [of "\<lambda>h. habit_id h = hid" "stored_habits file"]
    by (auto simp: json_toggle_route_def stored_habits_def split: prod.split)
next
  case (Some i)
  then show ?thesis
    using findIndex_None_iff [of "\<lambda>h. habit_id h = hid" "stored_habits file"]
    by (auto simp: json_toggle_route_def stored_habits_def Let_def split: prod.split)
qed

lemma json_route_not_found_file:
  assumes "fst (json_toggle_route hid file t y) = Status404"
  shows "snd (json_toggle_route hid file t y) = snd (readData file)"
  using assms
  by (auto simp: json_toggle_route_def Let_def split: prod.splits option.splits)

lemma json_route_found:
  assumes "findIndex (\<lambda>h. habit_id h = hid) (stored_habits file) = Some i"
  shows "json_toggle_route hid file t y =
           (Status200 (Some (json_toggle (stored_habits file ! i) t y)),
            Some ((stored_habits file)[i := json_toggle (stored_habits file ! i) t y]))"
  using assms findIndex_Some [OF assms]
  by (auto simp: json_toggle_route_def stored_habits_def Let_def writeData_def split: prod.split)

text \<open>
  The row that the SQLite handler reads back after its \<^verbatim>\<open>UPDATE\<close> is the row it
  selected with the three computed values written in.
\<close>

lemma db_get_db_update:
  "db_get (db_update db vals hid) hid =
     map_option (\<lambda>r. case vals of (c, s, l) \<Rightarrow>
        r\<lparr>completed_today := c, streak := s, last_completed_date := l\<rparr>) (db_get db hid)"
  by (induction db) (auto simp: db_get_def db_update_def split: prod.split)

lemma sqlite_route_found:
  assumes "db_get db hid = Some habit"
  shows "sqlite_toggle_route hid db t y =
           (Status200 (Some (sqlite_toggle habit t y)),
            db_update db (sqlite_toggle_values habit t y) hid)"
  using assms
  by (simp add: sqlite_toggle_route_def Let_def db_get_db_update sqlite_toggle_def)

lemma sqlite_route_not_found:
  "fst (sqlite_toggle_route hid db t y) = Status404 \<longleftrightarrow> hid \<notin> habit_id ` set db"
  by (auto simp: sqlite_toggle_route_def db_get_def Let_def find_None_iff
      split: option.splits dest: find_Some_in)

lemma sqlite_route_not_found_db:
  "fst (sqlite_toggle_route hid db t y) = Status404 \<Longrightarrow>
   snd (sqlite_toggle_route hid db t y) = db"
  by (auto simp: sqlite_toggle_route_def Let_def split: option.splits)

lemma json_route_frame:
  assumes "hid \<in> habit_id ` set (stored_habits file)"
  shows "length (stored_habits (snd (json_toggle_route hid file t y))) = length (stored_habits file) \<and>
         (\<forall>j < length (stored_habits file).
            habit_id (stored_habits (snd (json_toggle_route hid file t y)) ! j)
              = habit_id (stored_habits file ! j) \<and>
            name (stored_habits (snd (json_toggle_route hid file t y)) ! j)
              = name (stored_habits file ! j) \<and>
            (habit_id (stored_habits file ! j) \<noteq> hid \<longrightarrow>
               stored_habits (snd (json_toggle_route hid file t y)) ! j = stored_habits file ! j))"
proof -
  obtain i where i: "findIndex (\<lambda>h. habit_id h = hid) (stored_habits file) = Some i"
    using assms findIndex_None_iff [of "\<lambda>h. habit_id h = hid" "stored_habits file"]
    by (cases "findIndex (\<lambda>h. habit_id h = hid) (stored_habits file)") auto
  have after: "stored_habits (snd (json_toggle_route hid file t y)) =
          (stored_habits file)[i := json_toggle (stored_habits file ! i) t y]"
    by (simp add: json_route_found [OF i] stored_habits_def readData_def)
  have hit: "i < length (stored_habits file)" "habit_id (stored_habits file ! i) = hid"
    using findIndex_Some [OF i] by simp_all
  show ?thesis
    unfolding after using hit
    by (auto simp: nth_list_update json_toggle_id_name)
qed

lemma sqlite_route_frame:
  assumes "hid \<in> habit_id ` set db"
  shows "length (snd (sqlite_toggle_route hid db t y)) = length db \<and>
         (\<forall>j < length db.
            habit_id (snd (sqlite_toggle_route hid db t y) ! j) = habit_id (db ! j) \<and>
            name (snd (sqlite_toggle_route hid db t y) ! j) = name (db ! j) \<and>
            (habit_id (db ! j) \<noteq> hid \<longrightarrow> snd (sqlite_toggle_route hid db t y) ! j = db ! j))"
proof -
  obtain habit where g: "db_get db hid = Some habit"
    using assms by (cases "db_get db hid") (auto simp: db_get_def find_None_iff)
  have after: "snd (sqlite_toggle_route hid db t y) =
      db_update db (sqlite_toggle_values habit t y) hid"
    by (simp add: sqlite_toggle_route_def g Let_def)
  show ?thesis
    unfolding after by (auto simp: db_update_def split: prod.split)
qed

text \<open>
  Claim C8, as the code has it. The habits in the store are those of the data file
  (none while the file does not exist) or the rows of the table. On both servers
  the toggle handler answers 404 if and only if none of them has the given id. In
  that case the table is left as it is and an existing data file is left as it
  is; a data file that does not exist is created, holding the empty list.
\<close>

theorem C8_not_found:
  "(fst (json_toggle_route hid file today yesterdayStr) = Status404 \<longleftrightarrow>
      hid \<notin> habit_id ` set (case file of None \<Rightarrow> [] | Some data \<Rightarrow> data)) \<and>
   (fst (json_toggle_route hid file today yesterdayStr) = Status404 \<longrightarrow>
      snd (json_toggle_route hid file today yesterdayStr) =
        (case file of None \<Rightarrow> Some [] | Some data \<Rightarrow> Some data)) \<and>
   (fst (sqlite_toggle_route hid db today yesterdayStr) = Status404 \<longleftrightarrow>
      hid \<notin> habit_id ` set db) \<and>
   (fst (sqlite_toggle_route hid db today yesterdayStr) = Status404 \<longrightarrow>
      snd (sqlite_toggle_route hid db today yesterdayStr) = db)"
proof (intro conjI impI)
  have stored: "stored_habits file = (case file of None \<Rightarrow> [] | Some data \<Rightarrow> data)"
    by (simp add: stored_habits_def readData_def split: option.split)
  show "fst (json_toggle_route hid file today yesterdayStr) = Status404 \<longleftrightarrow>
      hid \<notin> habit_id ` set (case file of None \<Rightarrow> [] | Some data \<Rightarrow> data)"
    using json_route_not_found [of hid "file" today yesterdayStr] by (simp add: stored)
  show "fst (sqlite_toggle_route hid db today yesterdayStr) = Status404 \<longleftrightarrow>
      hid \<notin> habit_id ` set db"
    by (rule sqlite_route_not_found)
next
  assume nf: "fst (json_toggle_route hid file today yesterdayStr) = Status404"
  show "snd (json_toggle_route hid file today yesterdayStr) =
        (case file of None \<Rightarrow> Some [] | Some data \<Rightarrow> Some data)"
    by (simp add: json_route_not_found_file [OF nf] readData_def writeData_def
        split: option.split)
next
  assume "fst (sqlite_toggle_route hid db today yesterdayStr) = Status404"
  then show "snd (sqlite_toggle_route hid db today yesterdayStr) = db"
    by (rule sqlite_route_not_found_db)
qed

text \<open>
  A store that holds habit 1 only: a toggle of habit 2 is answered 404 and leaves
  file and table as they are; a toggle of habit 1 is answered 200. With no data
  file a toggle of habit 5 is answered 404 and leaves the file holding the empty
  list.
\<close>

theorem C8_not_found_witness:
  "json_toggle_route 2 (Some [newHabit 1 ''run'']) ''2024-03-01'' ''2024-02-29'' =
     (Status404, Some [newHabit 1 ''run'']) \<and>
   sqlite_toggle_route 2 [newHabit 1 ''run''] ''2024-03-01'' ''2024-02-29'' =
     (Status404, [newHabit 1 ''run'']) \<and>
   fst (json_toggle_route 1 (Some [newHabit 1 ''run'']) ''2024-03-01'' ''2024-02-29'') =
     Status200 (Some \<lparr>habit_id = 1, name = ''run'', streak = 1, completed_today = True,
                      last_completed_date = Some ''2024-03-01''\<rparr>) \<and>
   fst (sqlite_toggle_route 1 [newHabit 1 ''run''] ''2024-03-01'' ''2024-02-29'') =
     Status200 (Some \<lparr>habit_id = 1, name = ''run'', streak = 1, completed_today = True,
                      last_completed_date = Some ''2024-03-01''\<rparr>) \<and>
   json_toggle_route 5 None ''2024-03-01'' ''2024-02-29'' = (Status404, Some [])"
  using C8_not_found [where hid = 2 and ?file = "Some [newHabit 1 ''run'']"
      and db = "[newHabit 1 ''run'']" and today = "''2024-03-01''"
      and yesterdayStr = "''2024-02-29''"]
    C8_not_found [where hid = 1 and ?file = "Some [newHabit 1 ''run'']"
      and db = "[newHabit 1 ''run'']" and today = "''2024-03-01''"
      and yesterdayStr = "''2024-02-29''"]
    C8_not_found [where hid = 5 and ?file = None
      and db = "[]" and today = "''2024-03-01''" and yesterdayStr = "''2024-02-29''"]
  by (simp add: json_toggle_route_def sqlite_toggle_route_def readData_def writeData_def
      db_get_def db_update_def newHabit_def json_toggle_def json_toggle_values_def
      sqlite_toggle_values_def)

text \<open>
  C8 as stated fails where it says that no write occurs: with no data file, the
  toggle of habit 5 is answered 404 and the data file exists afterwards.
\<close>

theorem C8_absent_file_is_created_counterexample:
  "\<not> (fst (json_toggle_route 5 None ''2024-03-01'' ''2024-02-29'') = Status404 \<longrightarrow>
       snd (json_toggle_route 5 None ''2024-03-01'' ''2024-02-29'') = None)"
  by (simp add: json_toggle_route_def readData_def writeData_def)

text \<open>
  Claim C10. When a stored habit has the given id, the toggle handler of either
  server leaves the list as long as it was, leaves the id and the name of every
  habit as they were, and leaves every habit with another id exactly as it was.
\<close>

theorem C10_toggle_frame:
  "(hid \<in> habit_id ` set (stored_habits file) \<longrightarrow>
      length (stored_habits (snd (json_toggle_route hid file today yesterdayStr)))
        = length (stored_habits file) \<and>
      (\<forall>j < length (stored_habits file).
         habit_id (stored_habits (snd (json_toggle_route hid file today yesterdayStr)) ! j)
           = habit_id (stored_habits file ! j) \<and>
         name (stored_habits (snd (json_toggle_route hid file today yesterdayStr)) ! j)
           = name (stored_habits file ! j) \<and>
         (habit_id (stored_habits file ! j) \<noteq> hid \<longrightarrow>
            stored_habits (snd (json_toggle_route hid file today yesterdayStr)) ! j
              = stored_habits file ! j))) \<and>
   (hid \<in> habit_id ` set db \<longrightarrow>
      length (snd (sqlite_toggle_route hid db today yesterdayStr)) = length db \<and>
      (\<forall>j < length db.
         habit_id (snd (sqlite_toggle_route hid db today yesterdayStr) ! j) = habit_id (db ! j) \<and>
         name (snd (sqlite_toggle_route hid db today yesterdayStr) ! j) = name (db ! j) \<and>
         (habit_id (db ! j) \<noteq> hid \<longrightarrow>
            snd (sqlite_toggle_route hid db today yesterdayStr) ! j = db ! j)))"
  by (rule conjI; rule impI; (erule json_route_frame | erule sqlite_route_frame))

text \<open>
  A store with habits 1 and 2, asked to toggle habit 1 on 2024-03-01: habit 1 keeps
  its id and name and gets the three new values, habit 2 is untouched.
\<close>

theorem C10_toggle_frame_witness:
  "1 \<in> habit_id ` set (stored_habits (Some [newHabit 1 ''run'', newHabit 2 ''read''])) \<and>
   json_toggle_route 1 (Some [newHabit 1 ''run'', newHabit 2 ''read''])
       ''2024-03-01'' ''2024-02-29'' =
     (Status200 (Some \<lparr>habit_id = 1, name = ''run'', streak = 1, completed_today = True,
                       last_completed_date = Some ''2024-03-01''\<rparr>),
      Some [\<lparr>habit_id = 1, name = ''run'', streak = 1, completed_today = True,
             last_completed_date = Some ''2024-03-01''\<rparr>, newHabit 2 ''read'']) \<and>
   1 \<in> habit_id ` set [newHabit 1 ''run'', newHabit 2 ''read''] \<and>
   sqlite_toggle_route 1 [newHabit 1 ''run'', newHabit 2 ''read'']
       ''2024-03-01'' ''2024-02-29'' =
     (Status200 (Some \<lparr>habit_id = 1, name = ''run'', streak = 1, completed_today = True,
                       last_completed_date = Some ''2024-03-01''\<rparr>),
      [\<lparr>habit_id = 1, name = ''run'', streak = 1, completed_today = True,
        last_completed_date = Some ''2024-03-01''\<rparr>, newHabit 2 ''read''])"
  using C10_toggle_frame [where hid = 1
      and ?file = "Some [newHabit 1 ''run'', newHabit 2 ''read'']"
      and db = "[newHabit 1 ''run'', newHabit 2 ''read'']" and today = "''2024-03-01''"
      and yesterdayStr = "''2024-02-29''"]
  by (simp add: json_toggle_route_def sqlite_toggle_route_def stored_habits_def readData_def
      writeData_def db_get_def db_update_def newHabit_def json_toggle_def json_toggle_values_def
      sqlite_toggle_values_def)

section \<open>Creating a habit\<close>

lemma dropWhile_none: "\<forall>c\<in>set s. \<not> p c \<Longrightarrow> dropWhile p s = s"
  by (cases s) auto

lemma dropWhile_all: "\<forall>c\<in>set s. p c \<Longrightarrow> dropWhile p s = []"
  by (induction s) auto

lemma trim_no_whitespace: "\<forall>c\<in>set s. \<not> js_whitespace c \<Longrightarrow> trim s = s"
  by (simp add: trim_def dropWhile_none)

lemma trim_all_whitespace: "\<forall>c\<in>set s. js_whitespace c \<Longrightarrow> trim s = []"
  by (simp add: trim_def dropWhile_all)

text \<open>What the schema does hold: the empty name and every name longer than 50 fail.\<close>

lemma habitSchema_rejects_empty: "habitSchema (Some []) = None"
  by (simp add: habitSchema_def)

lemma habitSchema_rejects_long: "length s > 50 \<Longrightarrow> habitSchema (Some s) = None"
  by (simp add: habitSchema_def)

lemma habitSchema_accepts_50:
  "length s = 50 \<Longrightarrow> \<forall>c\<in>set s. \<not> js_whitespace c \<Longrightarrow> habitSchema (Some s) = Some s"
  by (cases s) (simp_all add: habitSchema_def trim_no_whitespace)

lemma create_rejected_persists_nothing:
  "habitSchema body_name = None \<Longrightarrow>
   json_create_route body_name file now = (Status400, file) \<and>
   sqlite_create_route body_name db lastID = (Status400, db)"
  by (simp add: json_create_route_def sqlite_create_route_def)

text \<open>
  The length tests see the name as received, so a name of one to fifty white-space
  characters passes them and is then trimmed to the empty name.
\<close>

lemma habitSchema_accepts_whitespace:
  "s \<noteq> [] \<Longrightarrow> length s \<le> 50 \<Longrightarrow> \<forall>c\<in>set s. js_whitespace c \<Longrightarrow>
   habitSchema (Some s) = Some []"
  by (cases s) (simp_all add: habitSchema_def trim_all_whitespace)

text \<open>
  Claim C5 at the name that consists of one space. Both create handlers answer 201
  and store a habit with the empty name, where the claim has them answer 400 and
  store nothing.
\<close>

theorem C5_whitespace_name_is_stored:
  "json_create_route (Some '' '') (Some []) 1700000000000 =
     (Status201 (Some \<lparr>habit_id = 1700000000000, name = '''', streak = 0,
                       completed_today = False, last_completed_date = None\<rparr>),
      Some [\<lparr>habit_id = 1700000000000, name = '''', streak = 0,
             completed_today = False, last_completed_date = None\<rparr>]) \<and>
   sqlite_create_route (Some '' '') [] 1 =
     (Status201 (Some \<lparr>habit_id = 1, name = '''', streak = 0,
                       completed_today = False, last_completed_date = None\<rparr>),
      [\<lparr>habit_id = 1, name = '''', streak = 0,
        completed_today = False, last_completed_date = None\<rparr>])"
  by (simp add: json_create_route_def sqlite_create_route_def habitSchema_def trim_def
      js_whitespace_def readData_def writeData_def newHabit_def db_get_def)

end
